theory Spec2Isabelle
  imports Main "HOL-Library.Word" "HOL-Library.Sublist"
begin

section \<open>JavaScript strings and request values\<close>

text \<open>
  A JavaScript string is a sequence of UTF-16 code units and \<open>s.length\<close> counts code
  units, so a string is a list of 16-bit words and \<open>length\<close> is the program's
  \<open>.length\<close>. String literals of the program (messages, view names, field names)
  are pure ASCII and are written as HOL strings; \<open>ascii\<close> embeds one into the
  program's strings where it meets user data.
\<close>

type_synonym jsstring = "16 word list"

definition ascii :: "string \<Rightarrow> jsstring" where
  "ascii s = map of_char s"

text \<open>
  \<open>String.prototype.trim\<close> removes the ECMAScript WhiteSpace and LineTerminator code
  points from both ends: TAB, LF, VT, FF, CR, SPACE, NBSP, U+1680, U+2000..U+200A,
  U+2028, U+2029, U+202F, U+205F, U+3000 and U+FEFF. All lie in the basic plane, so
  the test is one on code units.
\<close>

definition isWhiteSpace :: "16 word \<Rightarrow> bool" where
  "isWhiteSpace c =
     (c = 0x9 \<or> c = 0xA \<or> c = 0xB \<or> c = 0xC \<or> c = 0xD \<or> c = 0x20 \<or> c = 0xA0 \<or>
      c = 0x1680 \<or> (0x2000 \<le> c \<and> c \<le> 0x200A) \<or> c = 0x2028 \<or> c = 0x2029 \<or>
      c = 0x202F \<or> c = 0x205F \<or> c = 0x3000 \<or> c = 0xFEFF)"

definition trim :: "jsstring \<Rightarrow> jsstring" where
  "trim s = rev (dropWhile isWhiteSpace (rev (dropWhile isWhiteSpace s)))"

text \<open>A string that is empty or consists of white space only.\<close>

definition blank :: "jsstring \<Rightarrow> bool" where
  "blank s = list_all isWhiteSpace s"

text \<open>
  The values a parsed request body can hold (\<open>express.urlencoded\<close> with the extended
  parser, and \<open>express.json\<close>). The handlers observe only whether a value is a string
  (\<open>typeof v === "string"\<close>) and, if so, its code units. A field that is missing reads
  as \<open>undefined\<close>: \<open>None\<close> of the lookup.
\<close>

datatype jsvalue =
    JNull
  | JBool bool
  | JNum int
  | JStr jsstring
  | JArr "jsvalue list"
  | JObj "(string \<times> jsvalue) list"

type_synonym jsobject = "(string \<times> jsvalue) list"

definition field :: "jsobject \<Rightarrow> string \<Rightarrow> jsvalue option" where
  "field obj k = map_of obj k"

text \<open>
  \<open>typeof v === "string" ? v.trim() : ""\<close>, the first statement of both
  \<open>createPost\<close> and \<open>updatePost\<close>.
\<close>

fun sanitize :: "jsvalue option \<Rightarrow> jsstring" where
  "sanitize (Some (JStr s)) = trim s"
| "sanitize _ = []"

section \<open>The post model and the document store\<close>

record post =
  post_id :: jsstring
  title :: jsstring
  body :: jsstring

text \<open>
  Modelled from the spec: the Mongoose model \<open>models/blogspot.mjs\<close> and the database
  behind it are not among the sources. Section 4.3 of the specification gives the
  repository: \<open>create\<close> inserts a document and returns it with the id the store
  assigned, \<open>findById\<close>, \<open>updateById\<close> (full replacement of title and body, returning
  the state after the update) and \<open>deleteById\<close> answer a post or not-found, and every
  operation may fail with a store error, which the awaiting handler sees as a rejected
  promise. The store is keyed by id; \<open>failing\<close> holds the error message while the
  store is unavailable.
\<close>

record store =
  docs :: "post list"
  next_id :: nat
  failing :: "string option"

datatype 'a outcome = Rejected string | Resolved 'a

fun decimal :: "nat \<Rightarrow> jsstring" where
  "decimal n =
     (if n < 10 then [0x30 + of_nat n]
      else decimal (n div 10) @ [0x30 + of_nat (n mod 10)])"

declare decimal.simps [simp del]

definition lookup :: "store \<Rightarrow> jsstring \<Rightarrow> post option" where
  "lookup st i = List.find (\<lambda>p. post_id p = i) (docs st)"

definition find_all :: "store \<Rightarrow> post list outcome" where
  "find_all st = (case failing st of Some m \<Rightarrow> Rejected m | None \<Rightarrow> Resolved (docs st))"

definition findById :: "store \<Rightarrow> jsstring \<Rightarrow> post option outcome" where
  "findById st i =
     (case failing st of Some m \<Rightarrow> Rejected m | None \<Rightarrow> Resolved (lookup st i))"

definition save :: "store \<Rightarrow> jsstring \<Rightarrow> jsstring \<Rightarrow> post outcome \<times> store" where
  "save st t b =
     (case failing st of
        Some m \<Rightarrow> (Rejected m, st)
      | None \<Rightarrow>
          (let p = \<lparr>post_id = decimal (next_id st), title = t, body = b\<rparr>
           in (Resolved p, st\<lparr>docs := docs st @ [p], next_id := Suc (next_id st)\<rparr>)))"

definition findByIdAndUpdate ::
    "store \<Rightarrow> jsstring \<Rightarrow> jsstring \<Rightarrow> jsstring \<Rightarrow> post option outcome \<times> store" where
  "findByIdAndUpdate st i t b =
     (case failing st of
        Some m \<Rightarrow> (Rejected m, st)
      | None \<Rightarrow>
          (let st' = st\<lparr>docs :=
                       map (\<lambda>p. if post_id p = i then p\<lparr>title := t, body := b\<rparr> else p)
                         (docs st)\<rparr>
           in (Resolved (lookup st' i), st')))"

definition findByIdAndDelete :: "store \<Rightarrow> jsstring \<Rightarrow> post option outcome \<times> store" where
  "findByIdAndDelete st i =
     (case failing st of
        Some m \<Rightarrow> (Rejected m, st)
      | None \<Rightarrow>
          (Resolved (lookup st i), st\<lparr>docs := filter (\<lambda>p. post_id p \<noteq> i) (docs st)\<rparr>))"

text \<open>
  Modelled from the spec: the two derived views of a post, defined in the absent
  \<open>models/blogspot.mjs\<close>. Section 4.1: \<open>computeUrl(id)\<close> is \<open>/posts/{id}\<close>;
  \<open>computeSummary(body, maxLength)\<close> returns \<open>body\<close> unchanged when its length is at
  most \<open>maxLength\<close>, and otherwise its first \<open>maxLength\<close> characters followed by an
  ellipsis marker; \<open>maxLength\<close> defaults to 50. The marker is a parameter of
  \<open>computeSummary\<close>: the specification does not say which string it is. The list
  view is modelled with three full stops, \<open>ellipsis\<close>.
\<close>

definition computeUrl :: "jsstring \<Rightarrow> jsstring" where
  "computeUrl i = ascii ''/posts/'' @ i"

definition computeSummary :: "jsstring \<Rightarrow> jsstring \<Rightarrow> nat \<Rightarrow> jsstring" where
  "computeSummary marker b maxLength =
     (if length b \<le> maxLength then b else take maxLength b @ marker)"

definition getSummary :: "jsstring \<Rightarrow> jsstring \<Rightarrow> nat option \<Rightarrow> jsstring" where
  "getSummary marker b maxLength =
     computeSummary marker b (case maxLength of None \<Rightarrow> 50 | Some n \<Rightarrow> n)"

definition ellipsis :: jsstring where
  "ellipsis = ascii ''...''"

section \<open>Requests and responses\<close>

text \<open>
  A request as the router below \<open>/posts\<close> sees it: the method, the path segments
  after the mount point, the query string as its key-value pairs in order, the parsed
  body (an object; empty when the request carried none), and the \<open>:id\<close> parameter the
  matching route binds. \<open>originalMethod\<close> is the property \<open>method-override\<close> adds.
\<close>

record request =
  req_method :: jsstring
  originalMethod :: "jsstring option"
  req_path :: "jsstring list"
  req_query :: "(string \<times> jsstring) list"
  req_body :: jsobject
  params_id :: jsstring

record listed =
  l_id :: jsstring
  l_title :: jsstring
  l_body :: jsstring
  l_url :: jsstring
  l_summary :: jsstring

text \<open>
  The locals a view is rendered with: none, the list of posts, one post with its url,
  the create form's \<open>{errors, title, body}\<close>, and the edit form's
  \<open>{errors, post: {id, title, body}}\<close>, whose \<open>errors\<close> the edit form shown by
  \<open>showEditForm\<close> does not pass.
\<close>

datatype locals =
    NoLocals
  | IndexLocals "listed list"
  | DetailLocals jsstring jsstring jsstring jsstring
  | NewLocals "string list" jsstring jsstring
  | EditLocals "string list option" jsstring jsstring jsstring

text \<open>
  What a handler emits: \<open>res.status(n).render(view, locals)\<close>, \<open>res.status(n).send(text)\<close>
  or \<open>res.redirect(location)\<close>, which answers 302.
\<close>

datatype response =
    Render nat string locals
  | Send nat string
  | Redirect jsstring

fun status :: "response \<Rightarrow> nat" where
  "status (Render n _ _) = n"
| "status (Send n _) = n"
| "status (Redirect _) = 302"

section \<open>The controller\<close>

text \<open>
  The validation rules of \<open>createPost\<close> (lines 59 to 66) and of \<open>updatePost\<close>
  (lines 132 to 137), on the sanitized title and body. A string is falsy exactly when
  it is empty. Each \<open>if\<close> pushes onto the same array, one after the other.
\<close>

definition createErrors :: "jsstring \<Rightarrow> jsstring \<Rightarrow> string list" where
  "createErrors rawTitle rawBody =
     (if rawTitle = [] then [''Title is required.''] else []) @
     (if rawBody = [] then [''Body is required.''] else []) @
     (if rawTitle \<noteq> [] \<and> length rawTitle > 200
        then [''Title must be 200 characters or fewer.''] else []) @
     (if rawBody \<noteq> [] \<and> length rawBody > 10000 then [''Body is too long.''] else [])"

definition updateErrors :: "jsstring \<Rightarrow> jsstring \<Rightarrow> string list" where
  "updateErrors rawTitle rawBody =
     (if rawTitle = [] then [''Title is required.''] else []) @
     (if rawBody = [] then [''Body is required.''] else []) @
     (if rawTitle \<noteq> [] \<and> length rawTitle > 200
        then [''Title must be 200 characters or fewer.''] else [])"

definition getAllPosts :: "store \<Rightarrow> request \<Rightarrow> response \<times> store" where
  "getAllPosts st req =
     (case find_all st of
        Rejected m \<Rightarrow> (Send 500 (''Error fetching posts: '' @ m), st)
      | Resolved posts \<Rightarrow>
          (Render 200 ''index''
             (IndexLocals
                (map (\<lambda>p. \<lparr>l_id = post_id p, l_title = title p, l_body = body p,
                           l_url = computeUrl (post_id p),
                           l_summary = getSummary ellipsis (body p) (Some 50)\<rparr>) posts)),
           st))"

definition getPostById :: "store \<Rightarrow> request \<Rightarrow> response \<times> store" where
  "getPostById st req =
     (case findById st (params_id req) of
        Rejected m \<Rightarrow> (Send 500 (''Error fetching post: '' @ m), st)
      | Resolved None \<Rightarrow> (Send 404 ''Post not found'', st)
      | Resolved (Some p) \<Rightarrow>
          (Render 200 ''detail''
             (DetailLocals (post_id p) (title p) (body p) (computeUrl (post_id p))), st))"

definition showNewPostForm :: "store \<Rightarrow> request \<Rightarrow> response \<times> store" where
  "showNewPostForm st req = (Render 200 ''new'' NoLocals, st)"

definition createPost :: "store \<Rightarrow> request \<Rightarrow> response \<times> store" where
  "createPost st req =
     (let rawTitle = sanitize (field (req_body req) ''title'');
          rawBody = sanitize (field (req_body req) ''body'');
          errors = createErrors rawTitle rawBody
      in if length errors > 0 then (Render 400 ''new'' (NewLocals errors rawTitle rawBody), st)
         else (case save st rawTitle rawBody of
                 (Rejected m, st') \<Rightarrow> (Send 500 (''Error creating post: '' @ m), st')
               | (Resolved saved, st') \<Rightarrow>
                   (Redirect (ascii ''/posts/'' @ post_id saved), st')))"

definition deletePost :: "store \<Rightarrow> request \<Rightarrow> response \<times> store" where
  "deletePost st req =
     (case findByIdAndDelete st (params_id req) of
        (Rejected m, st') \<Rightarrow> (Send 500 (''Error deleting post: '' @ m), st')
      | (Resolved None, st') \<Rightarrow> (Send 404 ''Post not found'', st')
      | (Resolved (Some deleted), st') \<Rightarrow> (Redirect (ascii ''/posts/''), st'))"

definition showEditForm :: "store \<Rightarrow> request \<Rightarrow> response \<times> store" where
  "showEditForm st req =
     (case findById st (params_id req) of
        Rejected m \<Rightarrow> (Send 500 (''Error: '' @ m), st)
      | Resolved None \<Rightarrow> (Send 404 ''Post not found'', st)
      | Resolved (Some p) \<Rightarrow>
          (Render 200 ''edit'' (EditLocals None (post_id p) (title p) (body p)), st))"

definition updatePost :: "store \<Rightarrow> request \<Rightarrow> response \<times> store" where
  "updatePost st req =
     (let rawTitle = sanitize (field (req_body req) ''title'');
          rawBody = sanitize (field (req_body req) ''body'');
          errors = updateErrors rawTitle rawBody
      in if length errors > 0
         then (Render 400 ''edit'' (EditLocals (Some errors) (params_id req) rawTitle rawBody),
               st)
         else (case findByIdAndUpdate st (params_id req) rawTitle rawBody of
                 (Rejected m, st') \<Rightarrow> (Send 500 (''Error updating post: '' @ m), st')
               | (Resolved None, st') \<Rightarrow> (Send 404 ''Post not found'', st')
               | (Resolved (Some updated), st') \<Rightarrow>
                   (Redirect (ascii ''/posts/'' @ post_id updated), st')))"

section \<open>Method override and the router\<close>

text \<open>
  \<open>server.mjs\<close> installs the \<open>method-override\<close> middleware twice, first reading the
  query parameter \<open>_method\<close>, then with a getter that reads and deletes the body field
  \<open>_method\<close>. The middleware is the npm package's: it records the original method,
  looks only at requests whose original method is POST, takes the first element when
  the getter returns an array, and replaces \<open>req.method\<close> by the upper-cased value when
  that is a string whose lower-cased form is one of Node's HTTP method names.
\<close>

definition asciiLower :: "16 word \<Rightarrow> 16 word" where
  "asciiLower c = (if 0x41 \<le> c \<and> c \<le> 0x5A then c + 0x20 else c)"

text \<open>
  \<open>toLowerCase\<close> and \<open>toUpperCase\<close> as far as a comparison with ASCII method names
  can observe them. Besides \<open>A\<close> to \<open>Z\<close>, the only code points whose lower case
  contains an ASCII letter are the Kelvin sign U+212A (to \<open>k\<close>) and U+0130 (to \<open>i\<close>
  followed by U+0307); every other code unit stays outside ASCII and is left as it is.
  \<open>toUpperCase\<close> is applied only to strings \<open>supports\<close> has accepted (ASCII letters,
  the hyphen and the Kelvin sign, which is its own upper case).
\<close>

definition toLowerCase :: "jsstring \<Rightarrow> jsstring" where
  "toLowerCase s =
     concat (map (\<lambda>c. if c = 0x212A then [0x6B]
                       else if c = 0x130 then [0x69, 0x307]
                       else [asciiLower c]) s)"

definition toUpperCase :: "jsstring \<Rightarrow> jsstring" where
  "toUpperCase s = map (\<lambda>c. if 0x61 \<le> c \<and> c \<le> 0x7A then c - 0x20 else c) s"

definition http_methods :: "string list" where
  "http_methods =
     [''acl'', ''bind'', ''checkout'', ''connect'', ''copy'', ''delete'', ''get'', ''head'',
      ''link'', ''lock'', ''m-search'', ''merge'', ''mkactivity'', ''mkcalendar'', ''mkcol'',
      ''move'', ''notify'', ''options'', ''patch'', ''post'', ''propfind'', ''proppatch'',
      ''purge'', ''put'', ''rebind'', ''report'', ''search'', ''source'', ''subscribe'',
      ''trace'', ''unbind'', ''unlink'', ''unlock'', ''unsubscribe'']"

definition supports :: "jsstring \<Rightarrow> bool" where
  "supports m = (m \<noteq> [] \<and> toLowerCase m \<in> set (map ascii http_methods))"

text \<open>
  The query getter of \<open>methodOverride("_method")\<close>: \<open>query[key] || ''\<close>, where a key
  given once is a string and a key given several times is the array of its values.
\<close>

definition queryGetter :: "string \<Rightarrow> request \<Rightarrow> jsvalue option \<times> request" where
  "queryGetter key req =
     (case map snd (filter (\<lambda>kv. fst kv = key) (req_query req)) of
        [] \<Rightarrow> (Some (JStr []), req)
      | [v] \<Rightarrow> (Some (JStr v), req)
      | vs \<Rightarrow> (Some (JArr (map JStr vs)), req))"

text \<open>The getter function of \<open>server.mjs\<close>, lines 24 to 31.\<close>

definition bodyGetter :: "request \<Rightarrow> jsvalue option \<times> request" where
  "bodyGetter req =
     (case field (req_body req) ''_method'' of
        None \<Rightarrow> (None, req)
      | Some v \<Rightarrow>
          (Some v, req\<lparr>req_body := filter (\<lambda>kv. fst kv \<noteq> ''_method'') (req_body req)\<rparr>))"

definition methodOverride ::
    "(request \<Rightarrow> jsvalue option \<times> request) \<Rightarrow> request \<Rightarrow> request" where
  "methodOverride getter req =
     (let req1 = req\<lparr>originalMethod :=
                   Some (case originalMethod req of
                           None \<Rightarrow> req_method req
                         | Some m \<Rightarrow> if m = [] then req_method req else m)\<rparr>
      in if originalMethod req1 \<noteq> Some (ascii ''POST'') then req1
         else (case getter req1 of
                 (val, req2) \<Rightarrow>
                   (case (case val of
                            Some (JArr vs) \<Rightarrow> (case vs of [] \<Rightarrow> None | v # _ \<Rightarrow> Some v)
                          | _ \<Rightarrow> val) of
                      Some (JStr m) \<Rightarrow>
                        if supports m then req2\<lparr>req_method := toUpperCase m\<rparr> else req2
                    | _ \<Rightarrow> req2)))"

text \<open>
  The router of \<open>routes/postRoutes.mjs\<close>, mounted at \<open>/posts\<close>. Routes are tried in
  the order they were declared; a route whose path matches but which has no handler
  for the method passes the request on. Literal segments match without regard to
  ASCII case, and a HEAD request is served by a route's GET handler. The result is
  \<open>None\<close> when no handler of this router answers, and the request is left to Express.
  \<open>app\<close> is the part of \<open>server.mjs\<close> a request under \<open>/posts\<close> passes through
  after the body parsers: the two overrides, then the router.
\<close>

definition segment_is :: "string \<Rightarrow> jsstring \<Rightarrow> bool" where
  "segment_is lit seg = (map asciiLower seg = ascii lit)"

definition answered :: "response \<times> store \<Rightarrow> response option \<times> store" where
  "answered rs = (Some (fst rs), snd rs)"

definition router :: "store \<Rightarrow> request \<Rightarrow> response option \<times> store" where
  "router st req =
     (let m0 = toLowerCase (req_method req);
          m = (if m0 = ascii ''head'' then ascii ''get'' else m0)
      in case req_path req of
           [] \<Rightarrow> if m = ascii ''get'' then answered (getAllPosts st req) else (None, st)
         | [s] \<Rightarrow>
             if segment_is ''new'' s \<and> m = ascii ''get''
               then answered (showNewPostForm st req)
             else if segment_is ''new'' s \<and> m = ascii ''post''
               then answered (createPost st req)
             else if m = ascii ''get''
               then answered (getPostById st (req\<lparr>params_id := s\<rparr>))
             else if m = ascii ''put''
               then answered (updatePost st (req\<lparr>params_id := s\<rparr>))
             else if m = ascii ''delete''
               then answered (deletePost st (req\<lparr>params_id := s\<rparr>))
             else if m = ascii ''post''
               then (Some (Send 405 ''Method Not Allowed. Use method-override for PUT/DELETE.''),
                     st)
             else (None, st)
         | [s, e] \<Rightarrow>
             if segment_is ''edit'' e \<and> m = ascii ''get''
               then answered (showEditForm st (req\<lparr>params_id := s\<rparr>))
             else (None, st)
         | _ \<Rightarrow> (None, st))"

definition app :: "store \<Rightarrow> request \<Rightarrow> response option \<times> store" where
  "app st req =
     router st (methodOverride bodyGetter (methodOverride (queryGetter ''_method'') req))"

section \<open>The stored-text invariant and example data\<close>

text \<open>No stored post has a title or a body that is empty or white space only.\<close>

definition stored_nonblank :: "store \<Rightarrow> bool" where
  "stored_nonblank st = list_all (\<lambda>p. \<not> blank (title p) \<and> \<not> blank (body p)) (docs st)"

text \<open>
  A store holding one post with id \<open>0\<close>, and a request with a given method, path and
  body, used to run the handlers on concrete inputs.
\<close>

definition example_store :: store where
  "example_store =
     \<lparr>docs = [\<lparr>post_id = ascii ''0'', title = ascii ''First'', body = ascii ''Hello''\<rparr>],
      next_id = 1, failing = None\<rparr>"

definition example_request :: "string \<Rightarrow> jsstring list \<Rightarrow> jsobject \<Rightarrow> request" where
  "example_request m path obj =
     \<lparr>req_method = ascii m, originalMethod = None, req_path = path, req_query = [],
      req_body = obj, params_id = []\<rparr>"

section \<open>Trimming\<close>

lemma dropWhile_all_Nil:
  assumes "\<forall>x \<in> set (dropWhile P xs). P x"
  shows "dropWhile P xs = []"
proof (rule ccontr)
  assume n: "dropWhile P xs \<noteq> []"
  then have "\<not> P (hd (dropWhile P xs))" by (simp add: hd_dropWhile)
  moreover from n have "hd (dropWhile P xs) \<in> set (dropWhile P xs)" by (rule hd_in_set)
  ultimately show False using assms by blast
qed

lemma dropWhile_unchanged: "xs \<noteq> [] \<Longrightarrow> \<not> P (hd xs) \<Longrightarrow> dropWhile P xs = xs"
  by (cases xs) simp_all

lemma trim_Nil_iff: "trim s = [] \<longleftrightarrow> blank s"
proof
  assume "trim s = []"
  then have "dropWhile isWhiteSpace (rev (dropWhile isWhiteSpace s)) = []"
    by (simp add: trim_def)
  then have "\<forall>c \<in> set (rev (dropWhile isWhiteSpace s)). isWhiteSpace c"
    by (simp only: dropWhile_eq_Nil_conv)
  then have "\<forall>c \<in> set (dropWhile isWhiteSpace s). isWhiteSpace c"
    by (simp only: set_rev)
  then have "dropWhile isWhiteSpace s = []" by (rule dropWhile_all_Nil)
  then have "\<forall>c \<in> set s. isWhiteSpace c" by (simp only: dropWhile_eq_Nil_conv)
  then show "blank s" by (simp add: blank_def list_all_iff)
next
  assume "blank s"
  then have "\<forall>c \<in> set s. isWhiteSpace c" by (simp add: blank_def list_all_iff)
  then have d: "dropWhile isWhiteSpace s = []" by (simp only: dropWhile_eq_Nil_conv)
  show "trim s = []" by (simp only: trim_def d rev.simps dropWhile.simps)
qed

lemma trim_ends:
  assumes "trim s \<noteq> []"
  shows "\<not> isWhiteSpace (hd (trim s))" and "\<not> isWhiteSpace (last (trim s))"
proof -
  let ?d = "dropWhile isWhiteSpace s"
  let ?e = "dropWhile isWhiteSpace (rev ?d)"
  have t: "trim s = rev ?e" by (simp add: trim_def)
  from assms have e: "?e \<noteq> []" by (metis t rev.simps(1))
  then have d: "?d \<noteq> []" by (metis dropWhile.simps(1) rev.simps(1))
  have he: "\<not> isWhiteSpace (hd ?e)" using e by (simp add: hd_dropWhile)
  show "\<not> isWhiteSpace (last (trim s))" using he e by (simp add: t last_rev)
  have hd_d: "\<not> isWhiteSpace (hd ?d)" using d by (simp add: hd_dropWhile)
  obtain ys where ys: "rev ?d = ys @ ?e"
    by (metis takeWhile_dropWhile_id)
  then have "?d = rev ?e @ rev ys" by (metis rev_append rev_rev_ident)
  then have "hd ?d = hd (rev ?e)" using e by (metis hd_append2 rev_is_Nil_conv)
  then show "\<not> isWhiteSpace (hd (trim s))" using hd_d by (simp add: t)
qed

lemma trim_not_blank: "trim s \<noteq> [] \<Longrightarrow> \<not> blank (trim s)"
proof
  assume n: "trim s \<noteq> []" and b: "blank (trim s)"
  from n have "hd (trim s) \<in> set (trim s)" by (rule hd_in_set)
  with b have "isWhiteSpace (hd (trim s))" by (simp add: blank_def list_all_iff)
  with trim_ends(1) [OF n] show False by simp
qed

lemma trim_replicate: "\<not> isWhiteSpace c \<Longrightarrow> trim (replicate n c) = replicate n c"
  by (simp add: trim_def)

lemma letter_x_not_space: "\<not> isWhiteSpace 0x78"
  by (simp add: isWhiteSpace_def)

lemma sanitize_xs: "sanitize (Some (JStr (replicate n 0x78))) = replicate n 0x78"
  by (simp only: sanitize.simps trim_replicate [OF letter_x_not_space])

section \<open>Validation\<close>

lemma createErrors_rules:
  "(''Title is required.'' \<in> set (createErrors x y) \<longleftrightarrow> x = []) \<and>
   (''Body is required.'' \<in> set (createErrors x y) \<longleftrightarrow> y = []) \<and>
   (''Title must be 200 characters or fewer.'' \<in> set (createErrors x y)
      \<longleftrightarrow> length x > 200) \<and>
   (''Body is too long.'' \<in> set (createErrors x y) \<longleftrightarrow> length y > 10000)"
  by (auto simp: createErrors_def)

lemma createErrors_order:
  "createErrors x y =
     filter (\<lambda>m. m \<in> set (createErrors x y))
       [''Title is required.'', ''Body is required.'',
        ''Title must be 200 characters or fewer.'', ''Body is too long.'']"
  by (auto simp: createErrors_def)

lemma createErrors_subset:
  "set (createErrors x y) \<subseteq>
     {''Title is required.'', ''Body is required.'',
      ''Title must be 200 characters or fewer.'', ''Body is too long.''}"
  by (auto simp: createErrors_def)

text \<open>
  C1. For every raw create input, each of the four rules contributes its message
  exactly when its condition holds on the sanitized title and body, whatever the other
  rules do; the error list is the rule list restricted to the messages that fired, so
  it keeps the rule order; and the messages that can occur over all inputs are exactly
  the four.
\<close>

theorem createErrors_accumulate_in_rule_order:
  "(''Title is required.'' \<in> set (createErrors (sanitize t) (sanitize b))
      \<longleftrightarrow> sanitize t = []) \<and>
   (''Body is required.'' \<in> set (createErrors (sanitize t) (sanitize b))
      \<longleftrightarrow> sanitize b = []) \<and>
   (''Title must be 200 characters or fewer.'' \<in> set (createErrors (sanitize t) (sanitize b))
      \<longleftrightarrow> length (sanitize t) > 200) \<and>
   (''Body is too long.'' \<in> set (createErrors (sanitize t) (sanitize b))
      \<longleftrightarrow> length (sanitize b) > 10000) \<and>
   createErrors (sanitize t) (sanitize b) =
     filter (\<lambda>m. m \<in> set (createErrors (sanitize t) (sanitize b)))
       [''Title is required.'', ''Body is required.'',
        ''Title must be 200 characters or fewer.'', ''Body is too long.''] \<and>
   (\<Union>t'. \<Union>b'. set (createErrors (sanitize t') (sanitize b'))) =
     {''Title is required.'', ''Body is required.'',
      ''Title must be 200 characters or fewer.'', ''Body is too long.''}"
proof -
  have e1: "''Title is required.'' \<in> set (createErrors (sanitize None) (sanitize None))"
    by (simp add: createErrors_def)
  have e2: "''Body is required.'' \<in> set (createErrors (sanitize None) (sanitize None))"
    by (simp add: createErrors_def)
  have e3: "''Title must be 200 characters or fewer.''
      \<in> set (createErrors (sanitize (Some (JStr (replicate 201 0x78)))) (sanitize None))"
  proof -
    have "length (replicate 201 (0x78 :: 16 word)) > 200" by (simp only: length_replicate)
    then show ?thesis using createErrors_rules [of "replicate 201 0x78" "sanitize None"]
      by (simp only: sanitize_xs)
  qed
  have e4: "''Body is too long.''
      \<in> set (createErrors (sanitize None) (sanitize (Some (JStr (replicate 10001 0x78)))))"
  proof -
    have "length (replicate 10001 (0x78 :: 16 word)) > 10000"
      by (simp only: length_replicate)
    then show ?thesis using createErrors_rules [of "sanitize None" "replicate 10001 0x78"]
      by (simp only: sanitize_xs)
  qed
  have all: "(\<Union>t'. \<Union>b'. set (createErrors (sanitize t') (sanitize b'))) =
     {''Title is required.'', ''Body is required.'',
      ''Title must be 200 characters or fewer.'', ''Body is too long.''}" (is "?L = ?R")
  proof
    show "?L \<subseteq> ?R" by (intro UN_least createErrors_subset)
    have mem: "\<And>t' b' m. m \<in> set (createErrors (sanitize t') (sanitize b')) \<Longrightarrow> m \<in> ?L"
      by blast
    show "?R \<subseteq> ?L"
      by (intro insert_subsetI empty_subsetI mem [OF e1] mem [OF e2] mem [OF e3] mem [OF e4])
  qed
  note r = createErrors_rules [of "sanitize t" "sanitize b"]
  show ?thesis
  proof (intro conjI)
    show "''Title is required.'' \<in> set (createErrors (sanitize t) (sanitize b))
            \<longleftrightarrow> sanitize t = []"
      using r by (rule conjunct1)
    show "''Body is required.'' \<in> set (createErrors (sanitize t) (sanitize b))
            \<longleftrightarrow> sanitize b = []"
      using r by (elim conjE)
    show "''Title must be 200 characters or fewer.''
            \<in> set (createErrors (sanitize t) (sanitize b))
            \<longleftrightarrow> length (sanitize t) > 200"
      using r by (elim conjE)
    show "''Body is too long.'' \<in> set (createErrors (sanitize t) (sanitize b))
            \<longleftrightarrow> length (sanitize b) > 10000"
      using r by (elim conjE)
    show "createErrors (sanitize t) (sanitize b) =
            filter (\<lambda>m. m \<in> set (createErrors (sanitize t) (sanitize b)))
              [''Title is required.'', ''Body is required.'',
               ''Title must be 200 characters or fewer.'', ''Body is too long.'']"
      by (rule createErrors_order)
    show "(\<Union>t'. \<Union>b'. set (createErrors (sanitize t') (sanitize b'))) =
            {''Title is required.'', ''Body is required.'',
             ''Title must be 200 characters or fewer.'', ''Body is too long.''}"
      by (rule all)
  qed
qed

text \<open>
  An absent title with a body of 10001 characters fires the first and the last rule and
  nothing else; the two messages come out in rule order.
\<close>

theorem createErrors_accumulate_in_rule_order_witness:
  "createErrors (sanitize None) (sanitize (Some (JStr (replicate 10001 0x78)))) =
     [''Title is required.'', ''Body is too long.'']"
  using createErrors_accumulate_in_rule_order [of None "Some (JStr (replicate 10001 0x78))"]
  by (simp add: createErrors_def trim_replicate letter_x_not_space)

section \<open>The store\<close>

lemmas js_eval = trim_def ascii_def isWhiteSpace_def field_def example_request_def
  example_store_def

lemma lookup_None_iff: "lookup st i = None \<longleftrightarrow> (\<forall>p \<in> set (docs st). post_id p \<noteq> i)"
  by (auto simp: lookup_def find_None_iff)

lemma update_absent:
  "lookup st i = None \<Longrightarrow>
   st\<lparr>docs := map (\<lambda>p. if post_id p = i then f p else p) (docs st)\<rparr> = st"
proof -
  assume "lookup st i = None"
  then have "map (\<lambda>p. if post_id p = i then f p else p) (docs st) = docs st"
    by (simp add: lookup_None_iff map_idI)
  then show ?thesis by simp
qed


lemma find_updated:
  "List.find (\<lambda>p. post_id p = i)
     (map (\<lambda>p. if post_id p = i then p\<lparr>title := t, body := b\<rparr> else p) ps) =
   map_option (\<lambda>p. p\<lparr>title := t, body := b\<rparr>) (List.find (\<lambda>p. post_id p = i) ps)"
  by (induction ps) simp_all

lemma lookup_updated:
  "lookup (st\<lparr>docs := map (\<lambda>p. if post_id p = i then p\<lparr>title := t, body := b\<rparr> else p)
                          (docs st)\<rparr>) i =
   map_option (\<lambda>p. p\<lparr>title := t, body := b\<rparr>) (lookup st i)"
  by (simp add: lookup_def find_updated)

lemma lookup_post_id: "lookup st i = Some p \<Longrightarrow> post_id p = i"
  by (auto simp: lookup_def find_Some_iff)


lemma findById_absent_iff:
  "findById st i = Resolved None \<longleftrightarrow> failing st = None \<and> lookup st i = None"
  by (simp add: findById_def split: option.split)

section \<open>The handlers, case by case\<close>

lemma sanitize_nonempty:
  "sanitize v \<noteq> [] \<Longrightarrow> \<exists>s. v = Some (JStr s) \<and> sanitize v = trim s"
  by (cases v rule: sanitize.cases) simp_all

lemma sanitize_Nil_iff:
  "sanitize v = [] \<longleftrightarrow> (case v of Some (JStr s) \<Rightarrow> trim s = [] | _ \<Rightarrow> True)"
  by (cases v rule: sanitize.cases) simp_all

lemma sanitize_not_blank: "sanitize v \<noteq> [] \<Longrightarrow> \<not> blank (sanitize v)"
proof -
  assume n: "sanitize v \<noteq> []"
  from sanitize_nonempty [OF n] obtain s where s: "sanitize v = trim s" by blast
  with n have "trim s \<noteq> []" by simp
  then have "\<not> blank (trim s)" by (rule trim_not_blank)
  with s show ?thesis by simp
qed

lemma updateErrors_Nil_iff:
  "updateErrors x y = [] \<longleftrightarrow> x \<noteq> [] \<and> y \<noteq> [] \<and> length x \<le> 200"
  by (auto simp: updateErrors_def)

lemma createErrors_Nil_iff:
  "createErrors x y = [] \<longleftrightarrow>
     x \<noteq> [] \<and> y \<noteq> [] \<and> length x \<le> 200 \<and> length y \<le> 10000"
  by (auto simp: createErrors_def)

lemma createErrors_updateErrors:
  "createErrors x y =
     updateErrors x y @ (if y \<noteq> [] \<and> length y > 10000 then [''Body is too long.''] else [])"
  by (simp add: createErrors_def updateErrors_def)

lemma createPost_invalid:
  "createErrors (sanitize (field (req_body req) ''title''))
       (sanitize (field (req_body req) ''body'')) \<noteq> [] \<Longrightarrow>
   createPost st req =
     (Render 400 ''new''
        (NewLocals
           (createErrors (sanitize (field (req_body req) ''title''))
              (sanitize (field (req_body req) ''body'')))
           (sanitize (field (req_body req) ''title''))
           (sanitize (field (req_body req) ''body''))), st)"
  by (simp add: createPost_def Let_def)

lemma updatePost_invalid:
  "updateErrors (sanitize (field (req_body req) ''title''))
       (sanitize (field (req_body req) ''body'')) \<noteq> [] \<Longrightarrow>
   updatePost st req =
     (Render 400 ''edit''
        (EditLocals
           (Some (updateErrors (sanitize (field (req_body req) ''title''))
              (sanitize (field (req_body req) ''body''))))
           (params_id req)
           (sanitize (field (req_body req) ''title''))
           (sanitize (field (req_body req) ''body''))), st)"
  by (simp add: updatePost_def Let_def)

lemma createPost_valid:
  "createErrors (sanitize (field (req_body req) ''title''))
       (sanitize (field (req_body req) ''body'')) = [] \<Longrightarrow>
   createPost st req =
     (case save st (sanitize (field (req_body req) ''title''))
             (sanitize (field (req_body req) ''body'')) of
        (Rejected m, st') \<Rightarrow> (Send 500 (''Error creating post: '' @ m), st')
      | (Resolved saved, st') \<Rightarrow> (Redirect (ascii ''/posts/'' @ post_id saved), st'))"
  by (simp add: createPost_def Let_def)

lemma updatePost_valid:
  "updateErrors (sanitize (field (req_body req) ''title''))
       (sanitize (field (req_body req) ''body'')) = [] \<Longrightarrow>
   updatePost st req =
     (case findByIdAndUpdate st (params_id req) (sanitize (field (req_body req) ''title''))
             (sanitize (field (req_body req) ''body'')) of
        (Rejected m, st') \<Rightarrow> (Send 500 (''Error updating post: '' @ m), st')
      | (Resolved None, st') \<Rightarrow> (Send 404 ''Post not found'', st')
      | (Resolved (Some updated), st') \<Rightarrow>
          (Redirect (ascii ''/posts/'' @ post_id updated), st'))"
  by (simp add: updatePost_def Let_def)

lemma updatePost_valid_found:
  assumes "updateErrors (sanitize (field (req_body req) ''title''))
       (sanitize (field (req_body req) ''body'')) = []"
    and "failing st = None" and "lookup st (params_id req) = Some p"
  shows "updatePost st req =
     (Redirect (ascii ''/posts/'' @ params_id req),
      st\<lparr>docs := map (\<lambda>p. if post_id p = params_id req
                           then p\<lparr>title := sanitize (field (req_body req) ''title''),
                                  body := sanitize (field (req_body req) ''body'')\<rparr>
                           else p) (docs st)\<rparr>)"
  using assms lookup_post_id [OF assms(3)]
  by (simp add: updatePost_valid findByIdAndUpdate_def Let_def lookup_updated)

lemma updatePost_valid_absent:
  assumes "updateErrors (sanitize (field (req_body req) ''title''))
       (sanitize (field (req_body req) ''body'')) = []"
    and "failing st = None" and "lookup st (params_id req) = None"
  shows "updatePost st req = (Send 404 ''Post not found'', st)"
  using assms
  by (simp add: updatePost_valid findByIdAndUpdate_def Let_def lookup_updated update_absent)

lemma updatePost_valid_store:
  "updateErrors (sanitize (field (req_body req) ''title''))
       (sanitize (field (req_body req) ''body'')) = [] \<Longrightarrow>
   snd (updatePost st req) =
     snd (findByIdAndUpdate st (params_id req) (sanitize (field (req_body req) ''title''))
            (sanitize (field (req_body req) ''body'')))"
  by (auto simp: updatePost_valid split: prod.splits outcome.splits option.splits)

lemma updatePost_reads:
  "req_body r = req_body r' \<Longrightarrow> params_id r = params_id r' \<Longrightarrow>
   updatePost st r = updatePost st r'"
  by (simp add: updatePost_def Let_def)






lemma createPost_keeps_nonblank:
  assumes "stored_nonblank st"
  shows "stored_nonblank (snd (createPost st req))"
proof (cases "createErrors (sanitize (field (req_body req) ''title''))
          (sanitize (field (req_body req) ''body'')) = []")
  case False
  then show ?thesis using assms by (simp add: createPost_invalid)
next
  case True
  then have "\<not> blank (sanitize (field (req_body req) ''title''))"
    and "\<not> blank (sanitize (field (req_body req) ''body''))"
    by (simp_all add: createErrors_Nil_iff sanitize_not_blank)
  then show ?thesis using assms True
    by (simp add: createPost_valid save_def Let_def stored_nonblank_def split: option.split)
qed

lemma updatePost_keeps_nonblank:
  assumes "stored_nonblank st"
  shows "stored_nonblank (snd (updatePost st req))"
proof (cases "updateErrors (sanitize (field (req_body req) ''title''))
          (sanitize (field (req_body req) ''body'')) = []")
  case False
  then show ?thesis using assms by (simp add: updatePost_invalid)
next
  case True
  then have nb: "\<not> blank (sanitize (field (req_body req) ''title''))"
      "\<not> blank (sanitize (field (req_body req) ''body''))"
    by (simp_all add: updateErrors_Nil_iff sanitize_not_blank)
  have "stored_nonblank (snd (findByIdAndUpdate st (params_id req)
           (sanitize (field (req_body req) ''title''))
           (sanitize (field (req_body req) ''body''))))"
    using assms nb
    by (auto simp: findByIdAndUpdate_def Let_def stored_nonblank_def list_all_iff
        split: option.split)
  then show ?thesis using True by (simp add: updatePost_valid_store)
qed

section \<open>Method override and routing, case by case\<close>

lemmas app_eval = app_def methodOverride_def queryGetter_def bodyGetter_def router_def
  answered_def segment_is_def supports_def http_methods_def toLowerCase_def toUpperCase_def
  asciiLower_def Let_def

lemma method_names:
  "ascii ''PUT'' \<noteq> ascii ''POST''" "ascii ''PUT'' \<noteq> []" "ascii ''POST'' \<noteq> []"
  "toLowerCase (ascii ''PUT'') = ascii ''put''" "toLowerCase (ascii ''POST'') = ascii ''post''"
  "toUpperCase (ascii ''PUT'') = ascii ''PUT''"
  "ascii ''put'' \<noteq> ascii ''head''" "ascii ''put'' \<noteq> ascii ''get''"
  "ascii ''put'' \<noteq> ascii ''post''"
  "ascii ''post'' \<noteq> ascii ''head''" "ascii ''post'' \<noteq> ascii ''get''"
  "ascii ''post'' \<noteq> ascii ''put''" "ascii ''post'' \<noteq> ascii ''delete''"
  by (simp_all add: ascii_def toLowerCase_def toUpperCase_def asciiLower_def)

lemma supports_PUT: "supports (ascii ''PUT'')"
  by (simp add: supports_def http_methods_def ascii_def toLowerCase_def asciiLower_def)

lemma not_supports_Nil: "\<not> supports []"
  by (simp add: supports_def)

lemma override_query_none:
  assumes "originalMethod req = None" and "req_method req = ascii ''POST''"
    and "filter (\<lambda>kv. fst kv = ''_method'') (req_query req) = []"
  shows "methodOverride (queryGetter ''_method'') req =
           req\<lparr>originalMethod := Some (ascii ''POST'')\<rparr>"
  using assms by (simp add: methodOverride_def queryGetter_def Let_def not_supports_Nil)

lemma override_body_none:
  assumes "originalMethod req = Some (ascii ''POST'')"
    and "field (req_body req) ''_method'' = None"
  shows "methodOverride bodyGetter req = req"
  using assms by (simp add: methodOverride_def bodyGetter_def Let_def method_names)

lemma override_not_post:
  assumes "originalMethod req = None" and "req_method req = ascii ''PUT''"
  shows "methodOverride bodyGetter (methodOverride (queryGetter ''_method'') req) =
           req\<lparr>originalMethod := Some (ascii ''PUT'')\<rparr>"
  using assms by (simp add: methodOverride_def Let_def method_names)

lemma field_after_delete:
  "k \<noteq> k' \<Longrightarrow> field (filter (\<lambda>kv. fst kv \<noteq> k') obj) k = field obj k"
  by (induction obj) (auto simp: field_def)

lemma updatePost_reads_fields:
  "field (req_body r) ''title'' = field (req_body r') ''title'' \<Longrightarrow>
   field (req_body r) ''body'' = field (req_body r') ''body'' \<Longrightarrow>
   params_id r = params_id r' \<Longrightarrow> updatePost st r = updatePost st r'"
  by (simp add: updatePost_def Let_def)

lemma query_values_first:
  "map_of q k = Some v \<Longrightarrow> \<exists>vs. map snd (filter (\<lambda>kv. fst kv = k) q) = v # vs"
  by (induction q) (auto split: if_splits)

lemma query_values_none:
  "map_of q k = None \<Longrightarrow> filter (\<lambda>kv. fst kv = k) q = []"
  by (induction q) (auto split: if_splits)

lemma override_query_any:
  assumes "originalMethod req = None" and "req_method req = ascii ''POST''"
  shows "\<exists>m. methodOverride (queryGetter ''_method'') req =
           req\<lparr>originalMethod := Some (ascii ''POST''), req_method := m\<rparr>"
proof -
  let ?r = "req\<lparr>originalMethod := Some (ascii ''POST'')\<rparr>"
  have "methodOverride (queryGetter ''_method'') req = ?r \<or>
        (\<exists>v. methodOverride (queryGetter ''_method'') req = ?r\<lparr>req_method := toUpperCase v\<rparr>)"
    using assms
    by (auto simp: methodOverride_def queryGetter_def Let_def split: list.split)
  moreover have "?r = req\<lparr>originalMethod := Some (ascii ''POST''), req_method := req_method req\<rparr>"
    by simp
  ultimately show ?thesis by metis
qed

lemma override_query_first_put:
  assumes "originalMethod req = None" and "req_method req = ascii ''POST''"
    and "map_of (req_query req) ''_method'' = Some (ascii ''PUT'')"
  shows "methodOverride (queryGetter ''_method'') req =
           req\<lparr>originalMethod := Some (ascii ''POST''), req_method := ascii ''PUT''\<rparr>"
proof -
  from query_values_first [OF assms(3)] obtain vs
    where vs: "map snd (filter (\<lambda>kv. fst kv = ''_method'') (req_query req)) = ascii ''PUT'' # vs"
    by (elim exE)
  show ?thesis using assms(1,2)
    by (cases vs)
       (simp_all add: methodOverride_def queryGetter_def Let_def vs supports_PUT method_names)
qed

lemma override_body_field_put:
  assumes "originalMethod r = Some (ascii ''POST'')"
    and "field (req_body r) ''_method'' = Some (JStr (ascii ''PUT''))"
  shows "methodOverride bodyGetter r =
           r\<lparr>req_body := filter (\<lambda>kv. fst kv \<noteq> ''_method'') (req_body r),
             req_method := ascii ''PUT''\<rparr>"
  using assms
  by (simp add: methodOverride_def bodyGetter_def Let_def method_names supports_PUT)

lemma router_put:
  "req_path r = [i] \<Longrightarrow> req_method r = ascii ''PUT'' \<Longrightarrow>
   router st r = answered (updatePost st (r\<lparr>params_id := i\<rparr>))"
  by (simp add: router_def Let_def method_names)

lemma router_post:
  "req_path r = [i] \<Longrightarrow> req_method r = ascii ''POST'' \<Longrightarrow> \<not> segment_is ''new'' i \<Longrightarrow>
   router st r =
     (Some (Send 405 ''Method Not Allowed. Use method-override for PUT/DELETE.''), st)"
  by (simp add: router_def Let_def method_names)

section \<open>Create and update differ on the body bound\<close>

text \<open>
  C2. When the trimmed title is non-empty and at most 200 characters and the trimmed
  body is longer than 10000 characters, \<open>updatePost\<close> finds no error and goes to the
  store: it answers 500 when the store is unavailable, 404 when the id is unknown, and
  otherwise redirects to the post, which now holds the over-long body. \<open>createPost\<close>
  on the same title and body finds exactly \<open>Body is too long.\<close>, answers 400 with the
  form and leaves the store as it was.
\<close>

theorem update_omits_body_length_bound:
  assumes "field (req_body req) ''title'' = Some (JStr rawT)"
    and "field (req_body req) ''body'' = Some (JStr rawB)"
    and "trim rawT \<noteq> []" and "length (trim rawT) \<le> 200"
    and "length (trim rawB) > 10000"
  shows "updateErrors (sanitize (field (req_body req) ''title''))
           (sanitize (field (req_body req) ''body'')) = [] \<and>
         (\<forall>m. failing st = Some m \<longrightarrow>
            updatePost st req = (Send 500 (''Error updating post: '' @ m), st)) \<and>
         (failing st = None \<and> lookup st (params_id req) = None \<longrightarrow>
            updatePost st req = (Send 404 ''Post not found'', st)) \<and>
         (\<forall>p. failing st = None \<and> lookup st (params_id req) = Some p \<longrightarrow>
            fst (updatePost st req) = Redirect (ascii ''/posts/'' @ params_id req) \<and>
            lookup (snd (updatePost st req)) (params_id req) =
              Some (p\<lparr>title := trim rawT, body := trim rawB\<rparr>)) \<and>
         createErrors (sanitize (field (req_body req) ''title''))
           (sanitize (field (req_body req) ''body'')) = [''Body is too long.''] \<and>
         createPost st req =
           (Render 400 ''new'' (NewLocals [''Body is too long.''] (trim rawT) (trim rawB)), st)"
proof -
  have t: "sanitize (field (req_body req) ''title'') = trim rawT"
    and b: "sanitize (field (req_body req) ''body'') = trim rawB"
    using assms(1,2) by simp_all
  have bne: "trim rawB \<noteq> []" using assms(5) by auto
  have u: "updateErrors (sanitize (field (req_body req) ''title''))
           (sanitize (field (req_body req) ''body'')) = []"
    using assms(3,4) bne by (simp add: t b updateErrors_Nil_iff)
  have c: "createErrors (sanitize (field (req_body req) ''title''))
           (sanitize (field (req_body req) ''body'')) = [''Body is too long.'']"
    using u assms(5) bne by (simp add: createErrors_updateErrors t b)
  have c': "createErrors (sanitize (field (req_body req) ''title''))
           (sanitize (field (req_body req) ''body'')) \<noteq> []"
    by (simp add: c)
  have fail: "\<forall>m. failing st = Some m \<longrightarrow>
            updatePost st req = (Send 500 (''Error updating post: '' @ m), st)"
    by (simp add: updatePost_valid [OF u] findByIdAndUpdate_def)
  have absent: "failing st = None \<and> lookup st (params_id req) = None \<longrightarrow>
            updatePost st req = (Send 404 ''Post not found'', st)"
    using updatePost_valid_absent [OF u] by blast
  have found: "\<forall>p. failing st = None \<and> lookup st (params_id req) = Some p \<longrightarrow>
            fst (updatePost st req) = Redirect (ascii ''/posts/'' @ params_id req) \<and>
            lookup (snd (updatePost st req)) (params_id req) =
              Some (p\<lparr>title := trim rawT, body := trim rawB\<rparr>)"
  proof (intro allI impI)
    fix p
    assume a: "failing st = None \<and> lookup st (params_id req) = Some p"
    then have f: "failing st = None" and l: "lookup st (params_id req) = Some p" by simp_all
    show "fst (updatePost st req) = Redirect (ascii ''/posts/'' @ params_id req) \<and>
            lookup (snd (updatePost st req)) (params_id req) =
              Some (p\<lparr>title := trim rawT, body := trim rawB\<rparr>)"
      by (simp add: updatePost_valid_found [OF u f l] lookup_updated l t b)
  qed
  have cr: "createPost st req =
           (Render 400 ''new'' (NewLocals [''Body is too long.''] (trim rawT) (trim rawB)), st)"
  proof -
    have c2: "createErrors (trim rawT) (trim rawB) = [''Body is too long.'']"
      using c by (simp only: t b)
    show ?thesis using createPost_invalid [OF c', of st] by (simp only: t b c2)
  qed
  show ?thesis using u fail absent found c cr by (intro conjI)
qed

text \<open>
  A body of 10001 letters: the create form is answered 400 and nothing is stored; the
  update of post \<open>0\<close> is answered 302 and the post holds the 10001 letters.
\<close>

theorem update_omits_body_length_bound_witness:
  "createPost example_store
     (example_request ''POST'' [ascii ''new'']
        [(''title'', JStr (ascii ''Long'')), (''body'', JStr (replicate 10001 0x78))]) =
     (Render 400 ''new''
        (NewLocals [''Body is too long.''] (ascii ''Long'') (replicate 10001 0x78)),
      example_store) \<and>
   updatePost example_store
     ((example_request ''PUT'' [ascii ''0'']
        [(''title'', JStr (ascii ''Long'')), (''body'', JStr (replicate 10001 0x78))])
      \<lparr>params_id := ascii ''0''\<rparr>) =
     (Redirect (ascii ''/posts/0''),
      \<lparr>docs = [\<lparr>post_id = ascii ''0'', title = ascii ''Long'',
                 body = replicate 10001 0x78\<rparr>],
       next_id = 1, failing = None\<rparr>)"
proof -
  let ?obj = "[(''title'', JStr (ascii ''Long'')), (''body'', JStr (replicate 10001 0x78))]"
  let ?c = "example_request ''POST'' [ascii ''new''] ?obj"
  let ?u = "(example_request ''PUT'' [ascii ''0''] ?obj)\<lparr>params_id := ascii ''0''\<rparr>"
  have tl: "trim (ascii ''Long'') = ascii ''Long''" by (simp add: js_eval)
  have tb: "trim (replicate 10001 0x78) = replicate 10001 0x78"
    by (rule trim_replicate [OF letter_x_not_space])
  have h3: "trim (ascii ''Long'') \<noteq> []" and h4: "length (trim (ascii ''Long'')) \<le> 200"
    by (simp_all add: js_eval)
  have h5: "length (trim (replicate 10001 0x78)) > 10000" by (simp add: tb)
  have c1: "field (req_body ?c) ''title'' = Some (JStr (ascii ''Long''))"
    and c2: "field (req_body ?c) ''body'' = Some (JStr (replicate 10001 0x78))"
    and u1: "field (req_body ?u) ''title'' = Some (JStr (ascii ''Long''))"
    and u2: "field (req_body ?u) ''body'' = Some (JStr (replicate 10001 0x78))"
    by (simp_all add: field_def example_request_def)
  note C = update_omits_body_length_bound [OF c1 c2 h3 h4 h5, of example_store]
  note U = update_omits_body_length_bound [OF u1 u2 h3 h4 h5, of example_store]
  have l: "lookup example_store (params_id ?u) =
      Some \<lparr>post_id = ascii ''0'', title = ascii ''First'', body = ascii ''Hello''\<rparr>"
    by (simp add: lookup_def example_store_def example_request_def)
  have f: "failing example_store = None" by (simp add: example_store_def)
  have "createPost example_store ?c =
     (Render 400 ''new''
        (NewLocals [''Body is too long.''] (ascii ''Long'') (replicate 10001 0x78)),
      example_store)"
    using C by (simp only: tl tb)
  moreover have "updatePost example_store ?u =
     (Redirect (ascii ''/posts/0''),
      \<lparr>docs = [\<lparr>post_id = ascii ''0'', title = ascii ''Long'',
                 body = replicate 10001 0x78\<rparr>],
       next_id = 1, failing = None\<rparr>)"
  proof -
    from U have e: "updateErrors (sanitize (field (req_body ?u) ''title''))
           (sanitize (field (req_body ?u) ''body'')) = []" by (rule conjunct1)
    show ?thesis
      by (simp add: updatePost_valid_found [OF e f l] tl tb u1 u2)
         (simp add: js_eval)
  qed
  ultimately show ?thesis by (rule conjI)
qed

section \<open>Which requests reach the update\<close>

text \<open>
  A POST to \<open>/posts/0\<close> with a valid title and body and no \<open>_method\<close> anywhere is
  answered 405 by the route's fallback handler and the store is unchanged, while the
  same form sent with PUT is redirected to \<open>/posts/0\<close> and updates the post.
\<close>

theorem post_without_override_counterexample:
  "app example_store
     (example_request ''POST'' [ascii ''0'']
        [(''title'', JStr (ascii ''New title'')), (''body'', JStr (ascii ''New body''))]) =
     (Some (Send 405 ''Method Not Allowed. Use method-override for PUT/DELETE.''),
      example_store) \<and>
   app example_store
     (example_request ''PUT'' [ascii ''0'']
        [(''title'', JStr (ascii ''New title'')), (''body'', JStr (ascii ''New body''))]) =
     (Some (Redirect (ascii ''/posts/0'')),
      \<lparr>docs = [\<lparr>post_id = ascii ''0'', title = ascii ''New title'',
                 body = ascii ''New body''\<rparr>],
       next_id = 1, failing = None\<rparr>)"
  by (simp add: app_eval js_eval updatePost_def updateErrors_def findByIdAndUpdate_def
      lookup_def)

text \<open>
  C3, as amended. A request to \<open>/posts/{id}\<close>, as it arrives (no override has run
  on it yet), sent with PUT is handled by \<open>updatePost\<close>. Sent with POST it is handled by \<open>updatePost\<close> in the same way when
  method-override turns it into a PUT: when its body field \<open>_method\<close> is \<open>PUT\<close>
  (whatever the query string says), or when the first \<open>_method\<close> of its query string
  is \<open>PUT\<close> and its body has no field \<open>_method\<close>. Sent with POST and with no
  \<open>_method\<close> in the body or in the query string it is answered 405 and the store is
  unchanged, unless the segment is \<open>new\<close> in any letter case, which the create route
  takes. With a valid title and body, an available store and an existing id,
  \<open>updatePost\<close> redirects to \<open>/posts/{id}\<close> and the post holds the sanitized title and
  body.
\<close>

theorem update_via_put_or_overridden_post:
  assumes "req_path req = [i]" and "originalMethod req = None"
  shows "(req_method req = ascii ''PUT'' \<longrightarrow>
            app st req = answered (updatePost st (req\<lparr>params_id := i\<rparr>))) \<and>
         (req_method req = ascii ''POST'' \<and>
          field (req_body req) ''_method'' = Some (JStr (ascii ''PUT'')) \<longrightarrow>
            app st req = answered (updatePost st (req\<lparr>params_id := i\<rparr>))) \<and>
         (req_method req = ascii ''POST'' \<and> field (req_body req) ''_method'' = None \<and>
          map_of (req_query req) ''_method'' = Some (ascii ''PUT'') \<longrightarrow>
            app st req = answered (updatePost st (req\<lparr>params_id := i\<rparr>))) \<and>
         (req_method req = ascii ''POST'' \<and> field (req_body req) ''_method'' = None \<and>
          map_of (req_query req) ''_method'' = None \<and> \<not> segment_is ''new'' i \<longrightarrow>
            app st req =
              (Some (Send 405 ''Method Not Allowed. Use method-override for PUT/DELETE.''),
               st)) \<and>
         (\<forall>p. updateErrors (sanitize (field (req_body req) ''title''))
                (sanitize (field (req_body req) ''body'')) = [] \<and>
              failing st = None \<and> lookup st i = Some p \<longrightarrow>
            fst (updatePost st (req\<lparr>params_id := i\<rparr>)) = Redirect (ascii ''/posts/'' @ i) \<and>
            lookup (snd (updatePost st (req\<lparr>params_id := i\<rparr>))) i =
              Some (p\<lparr>title := sanitize (field (req_body req) ''title''),
                      body := sanitize (field (req_body req) ''body'')\<rparr>))"
proof (intro conjI impI allI)
  assume m: "req_method req = ascii ''PUT''"
  show "app st req = answered (updatePost st (req\<lparr>params_id := i\<rparr>))"
    unfolding app_def override_not_post [OF assms(2) m]
    using assms(1) m
    by (simp add: router_put updatePost_reads
          [of "req\<lparr>originalMethod := Some (ascii ''PUT''), params_id := i\<rparr>"
              "req\<lparr>params_id := i\<rparr>"])
next
  assume a: "req_method req = ascii ''POST'' \<and>
          field (req_body req) ''_method'' = Some (JStr (ascii ''PUT''))"
  then have m: "req_method req = ascii ''POST''"
    and b: "field (req_body req) ''_method'' = Some (JStr (ascii ''PUT''))" by simp_all
  from override_query_any [OF assms(2) m] obtain m'
    where q: "methodOverride (queryGetter ''_method'') req =
           req\<lparr>originalMethod := Some (ascii ''POST''), req_method := m'\<rparr>"
    by (elim exE)
  let ?q = "req\<lparr>originalMethod := Some (ascii ''POST''), req_method := m'\<rparr>"
  let ?b = "?q\<lparr>req_body := filter (\<lambda>kv. fst kv \<noteq> ''_method'') (req_body ?q),
               req_method := ascii ''PUT''\<rparr>"
  have o: "methodOverride bodyGetter ?q = ?b"
    using b by (intro override_body_field_put) simp_all
  have r: "router st ?b = answered (updatePost st (?b\<lparr>params_id := i\<rparr>))"
    using assms(1) by (intro router_put) simp_all
  have "updatePost st (?b\<lparr>params_id := i\<rparr>) = updatePost st (req\<lparr>params_id := i\<rparr>)"
    by (intro updatePost_reads_fields) (simp_all add: field_after_delete)
  then show "app st req = answered (updatePost st (req\<lparr>params_id := i\<rparr>))"
    by (simp only: app_def q o r)
next
  assume a: "req_method req = ascii ''POST'' \<and> field (req_body req) ''_method'' = None \<and>
          map_of (req_query req) ''_method'' = Some (ascii ''PUT'')"
  then have m: "req_method req = ascii ''POST''"
    and b: "field (req_body req) ''_method'' = None"
    and qv: "map_of (req_query req) ''_method'' = Some (ascii ''PUT'')" by simp_all
  let ?q = "req\<lparr>originalMethod := Some (ascii ''POST''), req_method := ascii ''PUT''\<rparr>"
  have o: "methodOverride bodyGetter ?q = ?q"
    using b by (intro override_body_none) simp_all
  have r: "router st ?q = answered (updatePost st (?q\<lparr>params_id := i\<rparr>))"
    using assms(1) by (intro router_put) simp_all
  have "updatePost st (?q\<lparr>params_id := i\<rparr>) = updatePost st (req\<lparr>params_id := i\<rparr>)"
    by (intro updatePost_reads) simp_all
  then show "app st req = answered (updatePost st (req\<lparr>params_id := i\<rparr>))"
    by (simp only: app_def override_query_first_put [OF assms(2) m qv] o r)
next
  assume a: "req_method req = ascii ''POST'' \<and> field (req_body req) ''_method'' = None \<and>
          map_of (req_query req) ''_method'' = None \<and> \<not> segment_is ''new'' i"
  then have m: "req_method req = ascii ''POST''"
    and b: "field (req_body req) ''_method'' = None"
    and qn: "filter (\<lambda>kv. fst kv = ''_method'') (req_query req) = []"
    and n: "\<not> segment_is ''new'' i"
    by (simp_all add: query_values_none)
  let ?r = "req\<lparr>originalMethod := Some (ascii ''POST'')\<rparr>"
  have o: "methodOverride bodyGetter ?r = ?r"
    using b by (intro override_body_none) simp_all
  show "app st req =
          (Some (Send 405 ''Method Not Allowed. Use method-override for PUT/DELETE.''), st)"
    unfolding app_def override_query_none [OF assms(2) m qn] o
    using assms(1) m n by (simp add: router_post)
next
  fix p
  assume a: "updateErrors (sanitize (field (req_body req) ''title''))
                (sanitize (field (req_body req) ''body'')) = [] \<and>
              failing st = None \<and> lookup st i = Some p"
  let ?r = "req\<lparr>params_id := i\<rparr>"
  from a have u: "updateErrors (sanitize (field (req_body ?r) ''title''))
                (sanitize (field (req_body ?r) ''body'')) = []"
    and f: "failing st = None" and l: "lookup st (params_id ?r) = Some p" by simp_all
  show "fst (updatePost st ?r) = Redirect (ascii ''/posts/'' @ i)"
    by (simp add: updatePost_valid_found [OF u f l])
  show "lookup (snd (updatePost st ?r)) i =
          Some (p\<lparr>title := sanitize (field (req_body req) ''title''),
                  body := sanitize (field (req_body req) ''body'')\<rparr>)"
    using l by (simp add: updatePost_valid_found [OF u f l] lookup_updated)
qed

text \<open>
  The edit form as a browser sends it, POST with the hidden field \<open>_method=PUT\<close>,
  updates post \<open>0\<close>, and so does the form posted to \<open>/posts/0?_method=PUT\<close>; the
  same form with neither is answered 405.
\<close>

theorem update_via_put_or_overridden_post_witness:
  "app example_store
     (example_request ''POST'' [ascii ''0'']
        [(''_method'', JStr (ascii ''PUT'')), (''title'', JStr (ascii ''New title'')),
         (''body'', JStr (ascii ''New body''))]) =
     (Some (Redirect (ascii ''/posts/0'')),
      \<lparr>docs = [\<lparr>post_id = ascii ''0'', title = ascii ''New title'',
                 body = ascii ''New body''\<rparr>],
       next_id = 1, failing = None\<rparr>) \<and>
   app example_store
     ((example_request ''POST'' [ascii ''0'']
        [(''title'', JStr (ascii ''New title'')), (''body'', JStr (ascii ''New body''))])
      \<lparr>req_query := [(''_method'', ascii ''PUT'')]\<rparr>) =
     (Some (Redirect (ascii ''/posts/0'')),
      \<lparr>docs = [\<lparr>post_id = ascii ''0'', title = ascii ''New title'',
                 body = ascii ''New body''\<rparr>],
       next_id = 1, failing = None\<rparr>) \<and>
   app example_store
     (example_request ''POST'' [ascii ''0'']
        [(''title'', JStr (ascii ''New title'')), (''body'', JStr (ascii ''New body''))]) =
     (Some (Send 405 ''Method Not Allowed. Use method-override for PUT/DELETE.''),
      example_store)"
proof -
  let ?plain = "example_request ''POST'' [ascii ''0'']
        [(''title'', JStr (ascii ''New title'')), (''body'', JStr (ascii ''New body''))]"
  let ?hidden = "example_request ''POST'' [ascii ''0'']
        [(''_method'', JStr (ascii ''PUT'')), (''title'', JStr (ascii ''New title'')),
         (''body'', JStr (ascii ''New body''))]"
  let ?query = "?plain\<lparr>req_query := [(''_method'', ascii ''PUT'')]\<rparr>"
  let ?done = "(Redirect (ascii ''/posts/0''),
      \<lparr>docs = [\<lparr>post_id = ascii ''0'', title = ascii ''New title'',
                 body = ascii ''New body''\<rparr>],
       next_id = 1, failing = None\<rparr>)"
  have up: "updatePost example_store (?hidden\<lparr>params_id := ascii ''0''\<rparr>) = ?done"
    "updatePost example_store (?query\<lparr>params_id := ascii ''0''\<rparr>) = ?done"
    by (simp_all add: js_eval updatePost_def updateErrors_def findByIdAndUpdate_def lookup_def)
  have h: "req_path ?hidden = [ascii ''0'']" "originalMethod ?hidden = None"
    "req_method ?hidden = ascii ''POST''"
    "field (req_body ?hidden) ''_method'' = Some (JStr (ascii ''PUT''))"
    by (simp_all add: example_request_def field_def)
  have q: "req_path ?query = [ascii ''0'']" "originalMethod ?query = None"
    "req_method ?query = ascii ''POST''" "field (req_body ?query) ''_method'' = None"
    "map_of (req_query ?query) ''_method'' = Some (ascii ''PUT'')"
    by (simp_all add: example_request_def field_def)
  have p: "req_path ?plain = [ascii ''0'']" "originalMethod ?plain = None"
    "req_method ?plain = ascii ''POST''" "field (req_body ?plain) ''_method'' = None"
    "map_of (req_query ?plain) ''_method'' = None" "\<not> segment_is ''new'' (ascii ''0'')"
    by (simp_all add: example_request_def field_def segment_is_def ascii_def)
  from update_via_put_or_overridden_post [OF h(1,2), of example_store] h(3,4)
  have a: "app example_store ?hidden =
      answered (updatePost example_store (?hidden\<lparr>params_id := ascii ''0''\<rparr>))"
    by blast
  from update_via_put_or_overridden_post [OF q(1,2), of example_store] q(3,4,5)
  have b: "app example_store ?query =
      answered (updatePost example_store (?query\<lparr>params_id := ascii ''0''\<rparr>))"
    by blast
  from update_via_put_or_overridden_post [OF p(1,2), of example_store] p(3,4,5,6)
  have c: "app example_store ?plain =
     (Some (Send 405 ''Method Not Allowed. Use method-override for PUT/DELETE.''),
      example_store)"
    by blast
  have a': "app example_store ?hidden = (Some (fst ?done), snd ?done)"
    by (simp only: a up answered_def)
  have b': "app example_store ?query = (Some (fst ?done), snd ?done)"
    by (simp only: b up answered_def)
  from a' b' c show ?thesis by (simp only: fst_conv snd_conv) 
qed

section \<open>Validation failures\<close>

text \<open>
  C4. Whenever the error list of a create or of an update is not empty, the handler
  answers 400 with the form view (\<open>new\<close> or \<open>edit\<close>), passes it that error list, and
  returns the store exactly as it received it.
\<close>

theorem validation_failure_changes_nothing:
  "(createErrors (sanitize (field (req_body req) ''title''))
        (sanitize (field (req_body req) ''body'')) \<noteq> [] \<longrightarrow>
      createPost st req =
        (Render 400 ''new''
           (NewLocals
              (createErrors (sanitize (field (req_body req) ''title''))
                 (sanitize (field (req_body req) ''body'')))
              (sanitize (field (req_body req) ''title''))
              (sanitize (field (req_body req) ''body''))), st)) \<and>
   (updateErrors (sanitize (field (req_body req) ''title''))
        (sanitize (field (req_body req) ''body'')) \<noteq> [] \<longrightarrow>
      updatePost st req =
        (Render 400 ''edit''
           (EditLocals
              (Some (updateErrors (sanitize (field (req_body req) ''title''))
                 (sanitize (field (req_body req) ''body''))))
              (params_id req)
              (sanitize (field (req_body req) ''title''))
              (sanitize (field (req_body req) ''body''))), st))"
  using createPost_invalid [of req st] updatePost_invalid [of req st] by (intro conjI impI)

text \<open>An empty title with the body \<open>hello\<close>, sent to both handlers.\<close>

theorem validation_failure_changes_nothing_witness:
  "createPost example_store
     (example_request ''POST'' [ascii ''new'']
        [(''title'', JStr []), (''body'', JStr (ascii ''hello''))]) =
     (Render 400 ''new'' (NewLocals [''Title is required.''] [] (ascii ''hello'')),
      example_store) \<and>
   updatePost example_store
     ((example_request ''PUT'' [ascii ''0'']
        [(''title'', JStr []), (''body'', JStr (ascii ''hello''))])\<lparr>params_id := ascii ''0''\<rparr>) =
     (Render 400 ''edit''
        (EditLocals (Some [''Title is required.'']) (ascii ''0'') [] (ascii ''hello'')),
      example_store)"
  using validation_failure_changes_nothing
    [of "example_request ''POST'' [ascii ''new'']
           [(''title'', JStr []), (''body'', JStr (ascii ''hello''))]" example_store]
    validation_failure_changes_nothing
    [of "(example_request ''PUT'' [ascii ''0'']
           [(''title'', JStr []), (''body'', JStr (ascii ''hello''))])\<lparr>params_id := ascii ''0''\<rparr>"
        example_store]
  by (simp add: js_eval createErrors_def updateErrors_def)

text \<open>
  C5. An update whose input is invalid is answered 400 with the edit view, the
  submitted (sanitized) values and the errors, whatever the store holds: the handler
  has not asked the store about the id. In particular the answer is not 404 when the
  id is unknown.
\<close>

theorem updatePost_invalid_answers_before_lookup:
  assumes "updateErrors (sanitize (field (req_body req) ''title''))
             (sanitize (field (req_body req) ''body'')) \<noteq> []"
  shows "fst (updatePost st req) =
           Render 400 ''edit''
             (EditLocals
                (Some (updateErrors (sanitize (field (req_body req) ''title''))
                   (sanitize (field (req_body req) ''body''))))
                (params_id req)
                (sanitize (field (req_body req) ''title''))
                (sanitize (field (req_body req) ''body''))) \<and>
         status (fst (updatePost st req)) = 400 \<and>
         (lookup st (params_id req) = None \<longrightarrow> status (fst (updatePost st req)) \<noteq> 404)"
  using updatePost_invalid [OF assms, of st] by simp

text \<open>
  No post has the id \<open>9\<close>: a blank title sent to it is answered 400, a valid title is
  answered 404.
\<close>

theorem updatePost_invalid_answers_before_lookup_witness:
  "lookup example_store (ascii ''9'') = None \<and>
   fst (updatePost example_store
     ((example_request ''PUT'' [ascii ''9'']
        [(''title'', JStr (ascii ''  '')), (''body'', JStr (ascii ''text''))])
      \<lparr>params_id := ascii ''9''\<rparr>)) =
     Render 400 ''edit''
       (EditLocals (Some [''Title is required.'']) (ascii ''9'') [] (ascii ''text'')) \<and>
   fst (updatePost example_store
     ((example_request ''PUT'' [ascii ''9'']
        [(''title'', JStr (ascii ''A title'')), (''body'', JStr (ascii ''text''))])
      \<lparr>params_id := ascii ''9''\<rparr>)) = Send 404 ''Post not found''"
  using updatePost_invalid_answers_before_lookup
    [of "(example_request ''PUT'' [ascii ''9'']
           [(''title'', JStr (ascii ''  '')), (''body'', JStr (ascii ''text''))])
         \<lparr>params_id := ascii ''9''\<rparr>" example_store]
  by (simp add: js_eval updateErrors_def updatePost_def findByIdAndUpdate_def lookup_def)

section \<open>What is stored\<close>

text \<open>
  C6. If no stored post has a blank title or body, then none has after \<open>createPost\<close>
  and none has after \<open>updatePost\<close>. And a title or body that is absent, is not a
  string, or trims to the empty string is answered 400 by both handlers, with the
  store returned as it was.
\<close>

theorem blank_text_is_never_stored:
  "(stored_nonblank st \<longrightarrow>
      stored_nonblank (snd (createPost st req)) \<and>
      stored_nonblank (snd (updatePost st req))) \<and>
   ((case field (req_body req) ''title'' of Some (JStr s) \<Rightarrow> trim s = [] | _ \<Rightarrow> True) \<or>
    (case field (req_body req) ''body'' of Some (JStr s) \<Rightarrow> trim s = [] | _ \<Rightarrow> True) \<longrightarrow>
      status (fst (createPost st req)) = 400 \<and> snd (createPost st req) = st \<and>
      status (fst (updatePost st req)) = 400 \<and> snd (updatePost st req) = st)"
proof (intro conjI impI)
  assume "stored_nonblank st"
  then show "stored_nonblank (snd (createPost st req))" by (rule createPost_keeps_nonblank)
next
  assume "stored_nonblank st"
  then show "stored_nonblank (snd (updatePost st req))" by (rule updatePost_keeps_nonblank)
next
  assume "(case field (req_body req) ''title'' of Some (JStr s) \<Rightarrow> trim s = [] | _ \<Rightarrow> True) \<or>
    (case field (req_body req) ''body'' of Some (JStr s) \<Rightarrow> trim s = [] | _ \<Rightarrow> True)"
  then have e: "sanitize (field (req_body req) ''title'') = [] \<or>
      sanitize (field (req_body req) ''body'') = []"
    by (simp add: sanitize_Nil_iff)
  then have c: "createErrors (sanitize (field (req_body req) ''title''))
        (sanitize (field (req_body req) ''body'')) \<noteq> []"
    by (auto simp: createErrors_Nil_iff)
  from e have u: "updateErrors (sanitize (field (req_body req) ''title''))
        (sanitize (field (req_body req) ''body'')) \<noteq> []"
    by (auto simp: updateErrors_Nil_iff)
  show "status (fst (createPost st req)) = 400" by (simp add: createPost_invalid [OF c])
  show "snd (createPost st req) = st" by (simp add: createPost_invalid [OF c])
  show "status (fst (updatePost st req)) = 400" by (simp add: updatePost_invalid [OF u])
  show "snd (updatePost st req) = st" by (simp add: updatePost_invalid [OF u])
qed

text \<open>
  The example store satisfies the invariant and still does after a valid create; a
  title of an ideographic space, a tab and a space is refused by both handlers.
\<close>

theorem blank_text_is_never_stored_witness:
  "stored_nonblank example_store \<and>
   stored_nonblank (snd (createPost example_store
     (example_request ''POST'' [ascii ''new'']
        [(''title'', JStr (ascii '' Second '')), (''body'', JStr (ascii ''More text''))]))) \<and>
   status (fst (createPost example_store
     (example_request ''POST'' [ascii ''new'']
        [(''title'', JStr [0x3000, 0x9, 0x20]), (''body'', JStr (ascii ''text''))]))) = 400 \<and>
   snd (updatePost example_store
     ((example_request ''PUT'' [ascii ''0'']
        [(''title'', JStr [0x3000, 0x9, 0x20]), (''body'', JStr (ascii ''text''))])
      \<lparr>params_id := ascii ''0''\<rparr>)) = example_store"
proof -
  have ok: "stored_nonblank example_store"
    by (simp add: stored_nonblank_def blank_def js_eval)
  have sp: "(case field (req_body (example_request ''POST'' [ascii ''new'']
        [(''title'', JStr [0x3000, 0x9, 0x20]), (''body'', JStr (ascii ''text''))])) ''title''
      of Some (JStr s) \<Rightarrow> trim s = [] | _ \<Rightarrow> True)"
    by (simp add: js_eval)
  have sp': "(case field (req_body ((example_request ''PUT'' [ascii ''0'']
        [(''title'', JStr [0x3000, 0x9, 0x20]), (''body'', JStr (ascii ''text''))])
        \<lparr>params_id := ascii ''0''\<rparr>)) ''title''
      of Some (JStr s) \<Rightarrow> trim s = [] | _ \<Rightarrow> True)"
    by (simp add: js_eval)
  show ?thesis
    using ok sp sp'
      blank_text_is_never_stored [of example_store "example_request ''POST'' [ascii ''new'']
        [(''title'', JStr (ascii '' Second '')), (''body'', JStr (ascii ''More text''))]"]
      blank_text_is_never_stored [of example_store "example_request ''POST'' [ascii ''new'']
        [(''title'', JStr [0x3000, 0x9, 0x20]), (''body'', JStr (ascii ''text''))]"]
      blank_text_is_never_stored [of example_store "(example_request ''PUT'' [ascii ''0'']
        [(''title'', JStr [0x3000, 0x9, 0x20]), (''body'', JStr (ascii ''text''))])
        \<lparr>params_id := ascii ''0''\<rparr>"]
    by blast
qed

section \<open>Unknown ids\<close>





section \<open>A valid create\<close>

text \<open>
  C8. When the error list of a create is empty and the store accepts the write, the
  title and the body were strings, the store gains exactly one post, appended to the
  others, whose title and body are the trimmed strings, and the answer is the redirect
  to \<open>/posts/\<close> followed by the id the store gave that post.
\<close>

theorem createPost_valid_inserts_once:
  assumes "createErrors (sanitize (field (req_body req) ''title''))
             (sanitize (field (req_body req) ''body'')) = []"
    and "failing st = None"
  shows "\<exists>rawT rawB new.
           field (req_body req) ''title'' = Some (JStr rawT) \<and>
           field (req_body req) ''body'' = Some (JStr rawB) \<and>
           new = \<lparr>post_id = decimal (next_id st), title = trim rawT, body = trim rawB\<rparr> \<and>
           createPost st req =
             (Redirect (ascii ''/posts/'' @ post_id new),
              st\<lparr>docs := docs st @ [new], next_id := Suc (next_id st)\<rparr>)"
proof -
  from assms(1) have t: "sanitize (field (req_body req) ''title'') \<noteq> []"
    and b: "sanitize (field (req_body req) ''body'') \<noteq> []"
    by (simp_all add: createErrors_Nil_iff)
  from sanitize_nonempty [OF t] obtain rawT
    where rawT: "field (req_body req) ''title'' = Some (JStr rawT)" by blast
  from sanitize_nonempty [OF b] obtain rawB
    where rawB: "field (req_body req) ''body'' = Some (JStr rawB)" by blast
  have "createPost st req =
          (Redirect (ascii ''/posts/'' @ decimal (next_id st)),
           st\<lparr>docs := docs st @ [\<lparr>post_id = decimal (next_id st), title = trim rawT,
                                    body = trim rawB\<rparr>],
              next_id := Suc (next_id st)\<rparr>)"
    using assms rawT rawB by (simp add: createPost_valid save_def Let_def)
  with rawT rawB show ?thesis by simp
qed

text \<open>A title with surrounding spaces is stored trimmed, as the second post.\<close>

theorem createPost_valid_inserts_once_witness:
  "createPost example_store
     (example_request ''POST'' [ascii ''new'']
        [(''title'', JStr (ascii '' Second '')), (''body'', JStr (ascii ''More text''))]) =
     (Redirect (ascii ''/posts/1''),
      \<lparr>docs = [\<lparr>post_id = ascii ''0'', title = ascii ''First'', body = ascii ''Hello''\<rparr>,
               \<lparr>post_id = ascii ''1'', title = ascii ''Second'', body = ascii ''More text''\<rparr>],
       next_id = 2, failing = None\<rparr>)"
  using createPost_valid_inserts_once
    [of "example_request ''POST'' [ascii ''new'']
           [(''title'', JStr (ascii '' Second '')), (''body'', JStr (ascii ''More text''))]"
        example_store]
  by (simp add: js_eval createErrors_def decimal.simps [of "Suc 0"])

section \<open>The summary\<close>

text \<open>
  C9. \<open>computeSummary\<close> returns the body unchanged when its length is at most
  \<open>maxLength\<close>; otherwise it returns the first \<open>maxLength\<close> characters followed by the
  marker, a result of length \<open>maxLength\<close> plus the marker's length that is a prefix of
  the body followed by the marker. In that second case \<open>maxLength = 0\<close> gives just the
  marker: every body that is not empty is longer than 0. An unspecified \<open>maxLength\<close>
  is 50.
\<close>

theorem computeSummary_truncates:
  "(length b \<le> n \<longrightarrow> computeSummary marker b n = b) \<and>
   (n < length b \<longrightarrow>
      computeSummary marker b n = take n b @ marker \<and>
      length (computeSummary marker b n) = n + length marker \<and>
      (\<exists>p. prefix p b \<and> length p = n \<and> computeSummary marker b n = p @ marker)) \<and>
   (b \<noteq> [] \<longrightarrow> computeSummary marker b 0 = marker) \<and>
   getSummary marker b None = computeSummary marker b 50"
proof (intro conjI impI)
  assume "n < length b"
  then show "\<exists>p. prefix p b \<and> length p = n \<and> computeSummary marker b n = p @ marker"
    by (intro exI [of _ "take n b"]) (simp add: computeSummary_def take_is_prefix)
qed (simp_all add: computeSummary_def getSummary_def)

text \<open>A body cut after five characters, a short body, and a body cut to nothing.\<close>

theorem computeSummary_truncates_witness:
  "computeSummary ellipsis (ascii ''Hello world'') 5 = ascii ''Hello...'' \<and>
   computeSummary ellipsis (ascii ''Hi'') 5 = ascii ''Hi'' \<and>
   computeSummary ellipsis (ascii ''Hi'') 0 = ellipsis"
  using computeSummary_truncates [of "ascii ''Hello world''" 5 ellipsis]
    computeSummary_truncates [of "ascii ''Hi''" 5 ellipsis]
    computeSummary_truncates [of "ascii ''Hi''" 0 ellipsis]
  by (simp add: ascii_def ellipsis_def)

section \<open>What the rejected form shows\<close>

text \<open>
  C10. On a validation failure of a create or of an update, the title and the body
  handed to the form view are the trimmed string when the submitted value was a
  string, and the empty string when it was absent or not a string.
\<close>

theorem rejected_form_echoes_sanitized_input:
  "(createErrors (sanitize (field (req_body req) ''title''))
        (sanitize (field (req_body req) ''body'')) \<noteq> [] \<longrightarrow>
      (\<exists>errors. fst (createPost st req) =
         Render 400 ''new''
           (NewLocals errors
              (case field (req_body req) ''title'' of Some (JStr s) \<Rightarrow> trim s | _ \<Rightarrow> [])
              (case field (req_body req) ''body'' of Some (JStr s) \<Rightarrow> trim s | _ \<Rightarrow> [])))) \<and>
   (updateErrors (sanitize (field (req_body req) ''title''))
        (sanitize (field (req_body req) ''body'')) \<noteq> [] \<longrightarrow>
      (\<exists>errors. fst (updatePost st req) =
         Render 400 ''edit''
           (EditLocals (Some errors) (params_id req)
              (case field (req_body req) ''title'' of Some (JStr s) \<Rightarrow> trim s | _ \<Rightarrow> [])
              (case field (req_body req) ''body'' of Some (JStr s) \<Rightarrow> trim s | _ \<Rightarrow> []))))"
proof -
  have san: "\<And>v. sanitize v = (case v of Some (JStr s) \<Rightarrow> trim s | _ \<Rightarrow> [])"
    by (simp split: option.split jsvalue.split)
  show ?thesis
    using createPost_invalid [of req st] updatePost_invalid [of req st]
    by (simp add: san [symmetric])
qed

text \<open>
  A title typed with surrounding spaces comes back without them, and a body that is a
  number or is missing comes back empty.
\<close>

theorem rejected_form_echoes_sanitized_input_witness:
  "fst (createPost example_store
     (example_request ''POST'' [ascii ''new'']
        [(''title'', JStr (ascii ''  My post '')), (''body'', JNum 7)])) =
     Render 400 ''new'' (NewLocals [''Body is required.''] (ascii ''My post'') []) \<and>
   fst (updatePost example_store
     ((example_request ''PUT'' [ascii ''0'']
        [(''title'', JStr (ascii ''  My post ''))])\<lparr>params_id := ascii ''0''\<rparr>)) =
     Render 400 ''edit''
       (EditLocals (Some [''Body is required.'']) (ascii ''0'') (ascii ''My post'') [])"
  using rejected_form_echoes_sanitized_input
    [of "example_request ''POST'' [ascii ''new'']
           [(''title'', JStr (ascii ''  My post '')), (''body'', JNum 7)]" example_store]
    rejected_form_echoes_sanitized_input
    [of "(example_request ''PUT'' [ascii ''0'']
           [(''title'', JStr (ascii ''  My post ''))])\<lparr>params_id := ascii ''0''\<rparr>"
        example_store]
  by (simp add: js_eval createErrors_def updateErrors_def createPost_def updatePost_def)

end
